theory Spec2Isabelle
  imports Complex_Main "HOL-Library.Word"
begin

section \<open>Data\<close>

text \<open>
  A JavaScript string is a sequence of 16-bit code units. The Cyrillic literals of
  \<^verbatim>\<open>App.tsx\<close> are written out as their code units; \<open>ascii\<close> embeds an ASCII literal.
\<close>

type_synonym jsstring = "16 word list"

definition ascii :: "string \<Rightarrow> jsstring" where
  "ascii s = map of_char s"

text \<open>
  Coordinates are the numbers the map widget delivers with a click (\<^verbatim>\<open>e.latlng.lat\<close>,
  \<^verbatim>\<open>e.latlng.lng\<close>). \<^verbatim>\<open>Math.min\<close> and \<^verbatim>\<open>Math.max\<close> return one of their
  arguments and do no rounding, so the finite numbers are modelled by \<open>real\<close> with
  \<open>min\<close> and \<open>max\<close>.
\<close>

type_synonym point = "real \<times> real"

text \<open>\<^verbatim>\<open>interface BoundingBox { min_lat; min_lng; max_lat; max_lng }\<close>\<close>

record BoundingBox =
  min_lat :: real
  min_lng :: real
  max_lat :: real
  max_lng :: real

section \<open>MapSelector: the two-click selection\<close>

text \<open>
  The component state of \<^verbatim>\<open>MapSelector\<close>: two \<^verbatim>\<open>useState<[number, number] | null>\<close>
  cells, both initially \<^verbatim>\<open>null\<close>.
\<close>

record MapSelector =
  selectionStart :: "point option"
  selectionEnd :: "point option"

definition MapSelector_init :: MapSelector where
  "MapSelector_init = \<lparr>selectionStart = None, selectionEnd = None\<rparr>"

text \<open>
  The bounding box built in the second branch of the click handler from the stored
  start point and the clicked point.
\<close>

definition click_bbox :: "point \<Rightarrow> point \<Rightarrow> BoundingBox" where
  "click_bbox start e =
     \<lparr>min_lat = min (fst start) (fst e),
      min_lng = min (snd start) (snd e),
      max_lat = max (fst start) (fst e),
      max_lng = max (snd start) (snd e)\<rparr>"

text \<open>
  The \<^verbatim>\<open>click\<close> handler of \<^verbatim>\<open>MapEvents\<close>. It returns the new component state and the
  list of calls made to \<^verbatim>\<open>onBoundsChange\<close>, in order. An array is truthy, so
  \<^verbatim>\<open>!selectionStart\<close> holds exactly when the cell is \<^verbatim>\<open>null\<close>.
\<close>

definition click :: "point \<Rightarrow> MapSelector \<Rightarrow> MapSelector \<times> BoundingBox list" where
  "click e s =
     (case selectionStart s of
        None \<Rightarrow> (s\<lparr>selectionStart := Some e\<rparr>, [])
      | Some start \<Rightarrow>
          (case selectionEnd s of
             None \<Rightarrow> (s\<lparr>selectionEnd := Some e\<rparr>, [click_bbox start e])
           | Some _ \<Rightarrow> (s, [])))"

definition resetSelection :: "MapSelector \<Rightarrow> MapSelector" where
  "resetSelection s = s\<lparr>selectionStart := None, selectionEnd := None\<rparr>"

text \<open>
  The three selection states, as the two cells represent them: nothing captured, the
  first point captured, both points captured.
\<close>

definition Empty :: MapSelector where
  "Empty = \<lparr>selectionStart = None, selectionEnd = None\<rparr>"

definition FirstPointCaptured :: "point \<Rightarrow> MapSelector" where
  "FirstPointCaptured p0 = \<lparr>selectionStart = Some p0, selectionEnd = None\<rparr>"

definition Complete :: "point \<Rightarrow> point \<Rightarrow> MapSelector" where
  "Complete p0 p1 = \<lparr>selectionStart = Some p0, selectionEnd = Some p1\<rparr>"

section \<open>App: the view state and its handlers\<close>

text \<open>
  Values that cross the boundary to the backend untyped: an event payload, the error a
  command rejects with, the value \<^verbatim>\<open>JSON.parse\<close> returns. TypeScript's annotations
  (\<^verbatim>\<open>listen<GenerationProgress>\<close>) are erased at run time, so a handler receives
  whatever value was emitted.
\<close>

datatype jsval =
    JUndefined
  | JNull
  | JBool bool
  | JNum real
  | JStr jsstring
  | JArr "jsval list"
  | JObj "(jsstring \<times> jsval) list"

text \<open>Reading a property of a plain object: \<^verbatim>\<open>undefined\<close> when the key is absent.\<close>

definition field :: "jsstring \<Rightarrow> (jsstring \<times> jsval) list \<Rightarrow> jsval" where
  "field k fs = (case map_of fs k of None \<Rightarrow> JUndefined | Some v \<Rightarrow> v)"

text \<open>\<^verbatim>\<open>interface GenerationProgress { stage: string; progress: number }\<close>. The second
  field is named \<open>percent\<close> here, \<open>progress\<close> being the state cell of \<^verbatim>\<open>App\<close>.\<close>

record GenerationProgress =
  stage :: jsstring
  percent :: real

text \<open>
  A value has the shape of \<^verbatim>\<open>GenerationProgress\<close> when it is an object with a string
  \<^verbatim>\<open>stage\<close> and a numeric \<^verbatim>\<open>progress\<close>; \<open>decode\<close> reads the two fields.
\<close>

definition decode :: "jsval \<Rightarrow> GenerationProgress option" where
  "decode v =
     (case v of
        JObj fs \<Rightarrow>
          (case field (ascii ''stage'') fs of
             JStr s \<Rightarrow>
               (case field (ascii ''progress'') fs of
                  JNum n \<Rightarrow> Some \<lparr>stage = s, percent = n\<rparr>
                | _ \<Rightarrow> None)
           | _ \<Rightarrow> None)
      | _ \<Rightarrow> None)"

text \<open>The five \<^verbatim>\<open>useState\<close> cells of \<^verbatim>\<open>App\<close>, with their initial values.\<close>

record App =
  bbox :: "BoundingBox option"
  outputPath :: jsstring
  isGenerating :: bool
  progress :: jsval
  result :: jsstring

definition App_init :: App where
  "App_init =
     \<lparr>bbox = None, outputPath = [], isGenerating = False,
      progress = JObj [(ascii ''stage'', JStr []), (ascii ''progress'', JNum 0)],
      result = []\<rparr>"

text \<open>\<^verbatim>\<open>onBoundsChange={setBbox}\<close>\<close>

definition setBbox :: "BoundingBox \<Rightarrow> App \<Rightarrow> App" where
  "setBbox b a = a\<lparr>bbox := Some b\<rparr>"

text \<open>
  The listener registered on \<^verbatim>\<open>generation-progress\<close>:
  \<^verbatim>\<open>(event) => { setProgress(event.payload); }\<close>.
\<close>

definition progress_listener :: "jsval \<Rightarrow> App \<Rightarrow> App" where
  "progress_listener payload a = a\<lparr>progress := payload\<rparr>"

text \<open>
  What the directory dialog returns: \<^verbatim>\<open>null\<close> on cancel, a path, or an array of paths.
  \<^verbatim>\<open>selectOutputPath\<close> stores the value only when it is a non-empty string.
\<close>

datatype open_result = OpenNull | OpenPath jsstring | OpenPaths "jsstring list"

definition selectOutputPath :: "open_result \<Rightarrow> App \<Rightarrow> App" where
  "selectOutputPath selected a =
     (case selected of
        OpenPath p \<Rightarrow> (if p \<noteq> [] then a\<lparr>outputPath := p\<rparr> else a)
      | _ \<Rightarrow> a)"

text \<open>What a handler does to the outside: a blocking alert, or a backend command with
  its arguments \<^verbatim>\<open>{bbox, outputPath}\<close>.\<close>

datatype effect =
    Alert jsstring
  | Invoke jsstring BoundingBox jsstring

text \<open>The alert text of \<^verbatim>\<open>generateTerrain\<close> (59 code units).\<close>

definition alert_text :: jsstring where
  "alert_text =
     [0x041F, 0x043E, 0x0436, 0x0430, 0x043B, 0x0443, 0x0439, 0x0441, 0x0442, 0x0430,
      0x002C, 0x0020, 0x0432, 0x044B, 0x0431, 0x0435, 0x0440, 0x0438, 0x0442, 0x0435,
      0x0020, 0x043E, 0x0431, 0x043B, 0x0430, 0x0441, 0x0442, 0x044C, 0x0020, 0x043D,
      0x0430, 0x0020, 0x043A, 0x0430, 0x0440, 0x0442, 0x0435, 0x0020, 0x0438, 0x0020,
      0x043F, 0x0443, 0x0442, 0x044C, 0x0020, 0x0434, 0x043B, 0x044F, 0x0020, 0x0441,
      0x043E, 0x0445, 0x0440, 0x0430, 0x043D, 0x0435, 0x043D, 0x0438, 0x044F]"

text \<open>JavaScript truthiness of the two guarded cells: an object is truthy and
  \<^verbatim>\<open>null\<close> is not; a string is truthy unless it is empty.\<close>

definition truthy_obj :: "'a option \<Rightarrow> bool" where
  "truthy_obj x = (case x of None \<Rightarrow> False | Some _ \<Rightarrow> True)"

definition truthy_str :: "jsstring \<Rightarrow> bool" where
  "truthy_str s = (s \<noteq> [])"

text \<open>
  \<^verbatim>\<open>generateTerrain\<close> up to its \<^verbatim>\<open>await\<close>: the guard with its alert, or the two state
  updates and the \<^verbatim>\<open>invoke\<close> of the command.
\<close>

definition generateTerrain :: "App \<Rightarrow> App \<times> effect list" where
  "generateTerrain a =
     (if \<not> truthy_obj (bbox a) \<or> \<not> truthy_str (outputPath a) then (a, [Alert alert_text])
      else (a\<lparr>isGenerating := True, result := []\<rparr>,
            [Invoke (ascii ''generate_terrain'') (the (bbox a)) (outputPath a)]))"

text \<open>How the awaited command settles: it resolves with a string or rejects with an
  error value.\<close>

datatype 'e settlement = Resolved jsstring | Rejected 'e

text \<open>
  The marker word the rendering looks for (the Russian word for error, six Cyrillic
  letters), and the prefix of a stored error: the marker, a colon and a space.
\<close>

definition error_marker :: jsstring where
  "error_marker = [0x041E, 0x0448, 0x0438, 0x0431, 0x043A, 0x0430]"

definition error_prefix :: jsstring where
  "error_prefix = error_marker @ [0x003A, 0x0020]"

text \<open>
  \<^verbatim>\<open>generateTerrain\<close> after its \<^verbatim>\<open>await\<close>: the \<^verbatim>\<open>try\<close> branch stores the response, the
  \<^verbatim>\<open>catch\<close> branch stores the prefixed error, \<^verbatim>\<open>finally\<close> clears \<^verbatim>\<open>isGenerating\<close>. The
  state setters act on the state at the time the command settles. The template literal
  converts the error with the runtime's \<^verbatim>\<open>ToString\<close>, a parameter here.
\<close>

definition generateTerrain_settled :: "('e \<Rightarrow> jsstring) \<Rightarrow> 'e settlement \<Rightarrow> App \<Rightarrow> App" where
  "generateTerrain_settled to_string r a =
     (case r of
        Resolved response \<Rightarrow> a\<lparr>result := response, isGenerating := False\<rparr>
      | Rejected error \<Rightarrow> a\<lparr>result := error_prefix @ to_string error, isGenerating := False\<rparr>)"

text \<open>The \<^verbatim>\<open>disabled\<close> attribute of the generate button.\<close>

definition disabled :: "App \<Rightarrow> bool" where
  "disabled a = (\<not> truthy_obj (bbox a) \<or> \<not> truthy_str (outputPath a) \<or> isGenerating a)"

text \<open>\<^verbatim>\<open>s.includes(t)\<close>: \<open>t\<close> occurs in \<open>s\<close> as a contiguous run of code units.\<close>

fun starts_with :: "jsstring \<Rightarrow> jsstring \<Rightarrow> bool" where
  "starts_with s [] = True"
| "starts_with [] (d # t) = False"
| "starts_with (c # s) (d # t) = (c = d \<and> starts_with s t)"

fun includes_js :: "jsstring \<Rightarrow> jsstring \<Rightarrow> bool" where
  "includes_js [] t = (t = [])"
| "includes_js (c # s) t = (starts_with (c # s) t \<or> includes_js s t)"

text \<open>
  The outcome the rendering shows. There is one string cell for it: nothing is shown
  while \<^verbatim>\<open>result\<close> is empty; otherwise the panel has class \<^verbatim>\<open>error\<close> when the text
  contains the marker word and class \<^verbatim>\<open>success\<close> (with the install instructions) when
  it does not.
\<close>

datatype GenerationOutcome = Success jsstring | Failure jsstring

definition outcome :: "App \<Rightarrow> GenerationOutcome option" where
  "outcome a =
     (if \<not> truthy_str (result a) then None
      else if includes_js (result a) error_marker then Some (Failure (result a))
      else Some (Success (result a)))"

section \<open>The component tree\<close>

text \<open>
  \<^verbatim>\<open>App\<close> renders one \<^verbatim>\<open>MapSelector\<close> and passes \<^verbatim>\<open>setBbox\<close> as its
  \<^verbatim>\<open>onBoundsChange\<close>. The state of the page is the state of both components.
\<close>

record UI =
  selector :: MapSelector
  app :: App

definition UI_init :: UI where
  "UI_init = \<lparr>selector = MapSelector_init, app = App_init\<rparr>"

text \<open>
  What can happen to the page: a click on the map, a click on the reset button, the
  directory dialog returning, a click on the generate button, the command settling, a
  progress event. Each runs one handler to completion (the event loop is single
  threaded). The sequence of events is left unconstrained, which covers every sequence
  the rendered page can deliver.
\<close>

datatype 'e event =
    MapClick point
  | ResetClicked
  | DialogClosed open_result
  | GenerateClicked
  | CommandSettled "'e settlement"
  | ProgressEvent jsval

definition handle :: "('e \<Rightarrow> jsstring) \<Rightarrow> 'e event \<Rightarrow> UI \<Rightarrow> UI \<times> effect list" where
  "handle to_string ev u =
     (case ev of
        MapClick p \<Rightarrow>
          (case click p (selector u) of
             (s', emitted) \<Rightarrow> (\<lparr>selector = s', app = fold setBbox emitted (app u)\<rparr>, []))
      | ResetClicked \<Rightarrow> (u\<lparr>selector := resetSelection (selector u)\<rparr>, [])
      | DialogClosed selected \<Rightarrow> (u\<lparr>app := selectOutputPath selected (app u)\<rparr>, [])
      | GenerateClicked \<Rightarrow>
          (case generateTerrain (app u) of (a', effects) \<Rightarrow> (u\<lparr>app := a'\<rparr>, effects))
      | CommandSettled r \<Rightarrow> (u\<lparr>app := generateTerrain_settled to_string r (app u)\<rparr>, [])
      | ProgressEvent payload \<Rightarrow> (u\<lparr>app := progress_listener payload (app u)\<rparr>, []))"

fun run :: "('e \<Rightarrow> jsstring) \<Rightarrow> 'e event list \<Rightarrow> UI \<Rightarrow> UI" where
  "run to_string [] u = u"
| "run to_string (ev # evs) u = run to_string evs (fst (handle to_string ev u))"

text \<open>The invariant of a bounding box.\<close>

definition bbox_ok :: "BoundingBox \<Rightarrow> bool" where
  "bbox_ok b = (min_lat b \<le> max_lat b \<and> min_lng b \<le> max_lng b)"

section \<open>The script of the plain page: the listener on \<^verbatim>\<open>bng_progress\<close>\<close>

text \<open>
  The second front end (\<^verbatim>\<open>main.ts\<close>) receives progress as a JSON string. Its listener
  parses the payload inside \<^verbatim>\<open>try { ... } catch(e) {}\<close> and writes a line into the
  element with id \<^verbatim>\<open>progressbar\<close>, if there is one.

  \<open>truthy\<close> is JavaScript truthiness, as \<^verbatim>\<open>||\<close> tests it.
\<close>

definition truthy :: "jsval \<Rightarrow> bool" where
  "truthy v =
     (case v of
        JUndefined \<Rightarrow> False
      | JNull \<Rightarrow> False
      | JBool b \<Rightarrow> b
      | JNum n \<Rightarrow> n \<noteq> 0
      | JStr s \<Rightarrow> s \<noteq> []
      | JArr _ \<Rightarrow> True
      | JObj _ \<Rightarrow> True)"

text \<open>
  \<^verbatim>\<open>obj.progress\<close> and \<^verbatim>\<open>obj.text\<close>: reading a property of \<^verbatim>\<open>null\<close> or
  \<^verbatim>\<open>undefined\<close> throws a TypeError (\<open>None\<close>); an object gives its field; a boolean, a
  number, a string and an array have neither of the two properties.
\<close>

definition get_prop :: "jsval \<Rightarrow> jsstring \<Rightarrow> jsval option" where
  "get_prop obj k =
     (case obj of
        JUndefined \<Rightarrow> None
      | JNull \<Rightarrow> None
      | JObj fs \<Rightarrow> Some (field k fs)
      | _ \<Rightarrow> Some JUndefined)"

text \<open>
  The listener. \<open>JSON_parse\<close> is the runtime's parser (\<open>None\<close> when it throws) and
  \<open>to_string\<close> the conversion a template literal applies; both are parameters. The
  state is the text of the progress bar, \<open>None\<close> when the page has no such element.
\<close>

definition bng_progress_listener ::
  "(jsstring \<Rightarrow> jsval option) \<Rightarrow> (jsval \<Rightarrow> jsstring) \<Rightarrow> jsstring \<Rightarrow> jsstring option \<Rightarrow> jsstring option"
where
  "bng_progress_listener JSON_parse to_string payload bar =
     (case JSON_parse payload of
        None \<Rightarrow> bar
      | Some obj \<Rightarrow>
          (case get_prop obj (ascii ''progress'') of
             None \<Rightarrow> bar
           | Some pv \<Rightarrow>
               (case get_prop obj (ascii ''text'') of
                  None \<Rightarrow> bar
                | Some tv \<Rightarrow>
                    (let p = (if truthy pv then pv else JNum 0);
                         text = (if truthy tv then tv else JStr [])
                     in case bar of
                          None \<Rightarrow> None
                        | Some _ \<Rightarrow> Some (to_string p @ ascii ''% - '' @ to_string text)))))"

section \<open>What the progress panel evaluates\<close>

text \<open>
  While \<^verbatim>\<open>isGenerating\<close> holds, \<^verbatim>\<open>App\<close> renders the progress panel, whose text is
  \<^verbatim>\<open>{progress.stage} - {progress.progress.toFixed(0)}%\<close>. \<open>progress_toFixed\<close> is the
  evaluation of \<^verbatim>\<open>progress.progress.toFixed(0)\<close> on the stored value: reading the
  property of \<^verbatim>\<open>null\<close> or \<^verbatim>\<open>undefined\<close> throws a TypeError, and so does the call
  when the property is not a number, which alone has the method. The result is the
  number the method is called on, or \<open>None\<close> when the panel is not rendered. A throw
  here is a throw of the render of \<^verbatim>\<open>App\<close>, which nothing catches.
\<close>

datatype js_error = TypeError

definition progress_toFixed :: "App \<Rightarrow> js_error + real option" where
  "progress_toFixed a =
     (if isGenerating a then
        (case get_prop (progress a) (ascii ''progress'') of
           None \<Rightarrow> Inl TypeError
         | Some v \<Rightarrow> (case v of JNum n \<Rightarrow> Inr (Some n) | _ \<Rightarrow> Inl TypeError))
      else Inr None)"

text \<open>Two concrete states used in the examples below.\<close>

definition ready_app :: App where
  "ready_app = App_init\<lparr>bbox := Some (click_bbox (10, 20) (30, 5)), outputPath := ascii ''/maps''\<rparr>"

definition fetching_tiles :: jsval where
  "fetching_tiles = JObj [(ascii ''stage'', JStr (ascii ''fetching tiles'')), (ascii ''progress'', JNum 42)]"

section \<open>Helper lemmas\<close>

lemma click_Empty: "click p Empty = (FirstPointCaptured p, [])"
  by (simp add: click_def Empty_def FirstPointCaptured_def)

lemma click_FirstPointCaptured:
  "click p1 (FirstPointCaptured p0) = (Complete p0 p1, [click_bbox p0 p1])"
  by (simp add: click_def FirstPointCaptured_def Complete_def)

lemma click_Complete: "click p (Complete p0 p1) = (Complete p0 p1, [])"
  by (simp add: click_def Complete_def)

lemma resetSelection_Empty: "resetSelection s = Empty"
  by (simp add: resetSelection_def Empty_def)

lemma bbox_ok_click_bbox: "bbox_ok (click_bbox p0 p1)"
  by (simp add: bbox_ok_def click_bbox_def min_le_iff_disj le_max_iff_disj)

lemma click_bbox_commute: "click_bbox p0 p1 = click_bbox p1 p0"
  by (simp add: click_bbox_def min.commute max.commute)

lemma click_emitted: "b \<in> set (snd (click p s)) \<Longrightarrow> \<exists>p0. b = click_bbox p0 p"
  by (auto simp: click_def split: option.splits)

lemma starts_with_append: "starts_with (t @ s) t"
  by (induction t) simp_all

lemma includes_js_prefix: "includes_js (t @ s) t"
proof (cases "t @ s")
  case Nil
  then show ?thesis by simp
next
  case (Cons c r)
  have "starts_with (t @ s) t" by (rule starts_with_append)
  with Cons show ?thesis by simp
qed

lemma includes_js_error_prefix: "includes_js (error_prefix @ s) error_marker"
  using includes_js_prefix [of error_marker "[0x003A, 0x0020] @ s"]
  by (simp add: error_prefix_def)

lemma error_prefix_neq_Nil: "error_prefix \<noteq> []"
  by (simp add: error_prefix_def error_marker_def)

lemma truthy_obj_iff: "truthy_obj x \<longleftrightarrow> x \<noteq> None"
  by (cases x) (simp_all add: truthy_obj_def)

lemma ready_app_fields:
  "bbox ready_app = Some \<lparr>min_lat = 10, min_lng = 5, max_lat = 30, max_lng = 20\<rparr>"
  "outputPath ready_app = ascii ''/maps''"
  "outputPath ready_app \<noteq> []"
  "isGenerating ready_app = False"
  "result ready_app = []"
  by (simp_all add: ready_app_def App_init_def click_bbox_def ascii_def)

lemma decode_fetching_tiles:
  "decode fetching_tiles = Some \<lparr>stage = ascii ''fetching tiles'', percent = 42\<rparr>"
  by (simp add: decode_def fetching_tiles_def field_def ascii_def)

text \<open>The bounding box of the page is changed by nothing but a completed selection, so
  every handler keeps the invariant.\<close>

lemma handle_bbox_ok:
  assumes "\<forall>b. bbox (app u) = Some b \<longrightarrow> bbox_ok b"
  shows "\<forall>b. bbox (app (fst (handle ts ev u))) = Some b \<longrightarrow> bbox_ok b"
proof (cases ev)
  case (MapClick p)
  show ?thesis
  proof (cases "selectionStart (selector u)")
    case None
    with MapClick assms show ?thesis by (simp add: handle_def click_def)
  next
    case (Some p0)
    with MapClick assms show ?thesis
      by (cases "selectionEnd (selector u)")
         (simp_all add: handle_def click_def setBbox_def bbox_ok_click_bbox)
  qed
next
  case ResetClicked
  with assms show ?thesis by (simp add: handle_def)
next
  case (DialogClosed sel)
  with assms show ?thesis
    by (cases sel) (simp_all add: handle_def selectOutputPath_def)
next
  case GenerateClicked
  with assms show ?thesis by (simp add: handle_def generateTerrain_def)
next
  case (CommandSettled r)
  with assms show ?thesis
    by (cases r) (simp_all add: handle_def generateTerrain_settled_def)
next
  case (ProgressEvent payload)
  with assms show ?thesis by (simp add: handle_def progress_listener_def)
qed

lemma run_bbox_ok:
  "\<forall>b. bbox (app u) = Some b \<longrightarrow> bbox_ok b \<Longrightarrow>
   \<forall>b. bbox (app (run ts evs u)) = Some b \<longrightarrow> bbox_ok b"
proof (induction evs arbitrary: u)
  case Nil
  then show ?case by simp
next
  case (Cons ev evs)
  have "\<forall>b. bbox (app (fst (handle ts ev u))) = Some b \<longrightarrow> bbox_ok b"
    using Cons.prems by (rule handle_bbox_ok)
  then show ?case using Cons.IH by simp
qed

section \<open>C1: a generation request and how it settles\<close>

text \<open>
  C1, as amended. With a bounding box and a non-empty output path present,
  \<open>generateTerrain\<close> sets \<open>isGenerating\<close>, empties \<open>result\<close> (no outcome is shown) and
  issues exactly one command \<^verbatim>\<open>generate_terrain\<close> with that box and that path. When the
  command resolves with \<open>m\<close>, \<open>result\<close> becomes \<open>m\<close> and \<open>isGenerating\<close> is cleared; the
  outcome shown is \<open>Success m\<close> provided \<open>m\<close> is non-empty and does not contain the
  marker word. When it rejects with \<open>e\<close>, \<open>result\<close> becomes the prefix followed by the
  stringified \<open>e\<close>, which is shown as a failure, and \<open>isGenerating\<close> is cleared.
\<close>

theorem generateTerrain_request_and_settlement:
  assumes "bbox a = Some b" and "outputPath a \<noteq> []"
  shows
    "generateTerrain a =
       (a\<lparr>isGenerating := True, result := []\<rparr>,
        [Invoke (ascii ''generate_terrain'') b (outputPath a)])
     \<and> isGenerating (fst (generateTerrain a))
     \<and> outcome (fst (generateTerrain a)) = None
     \<and> result (generateTerrain_settled ts (Resolved m) a') = m
     \<and> \<not> isGenerating (generateTerrain_settled ts (Resolved m) a')
     \<and> (m \<noteq> [] \<and> \<not> includes_js m error_marker \<longrightarrow>
          outcome (generateTerrain_settled ts (Resolved m) a') = Some (Success m))
     \<and> result (generateTerrain_settled ts (Rejected e) a') = error_prefix @ ts e
     \<and> \<not> isGenerating (generateTerrain_settled ts (Rejected e) a')
     \<and> outcome (generateTerrain_settled ts (Rejected e) a') = Some (Failure (error_prefix @ ts e))"
proof -
  have start: "generateTerrain a =
       (a\<lparr>isGenerating := True, result := []\<rparr>,
        [Invoke (ascii ''generate_terrain'') b (outputPath a)])"
    using assms by (simp add: generateTerrain_def truthy_obj_def truthy_str_def)
  have rejected: "outcome (generateTerrain_settled ts (Rejected e) a') = Some (Failure (error_prefix @ ts e))"
    by (simp add: outcome_def generateTerrain_settled_def truthy_str_def
        includes_js_error_prefix error_prefix_neq_Nil)
  have resolved: "m \<noteq> [] \<and> \<not> includes_js m error_marker \<longrightarrow>
          outcome (generateTerrain_settled ts (Resolved m) a') = Some (Success m)"
    by (simp add: outcome_def generateTerrain_settled_def truthy_str_def)
  from start rejected resolved show ?thesis
    by (simp add: outcome_def truthy_str_def generateTerrain_settled_def)
qed

theorem generateTerrain_request_and_settlement_witness:
  "generateTerrain ready_app =
     (ready_app\<lparr>isGenerating := True, result := []\<rparr>,
      [Invoke (ascii ''generate_terrain'') \<lparr>min_lat = 10, min_lng = 5, max_lat = 30, max_lng = 20\<rparr> (ascii ''/maps'')])
   \<and> outcome (generateTerrain_settled (\<lambda>e. e) (Resolved (ascii ''OK'')) (fst (generateTerrain ready_app))) =
       Some (Success (ascii ''OK''))
   \<and> outcome (generateTerrain_settled (\<lambda>e. e) (Rejected (ascii ''disk full'')) (fst (generateTerrain ready_app))) =
       Some (Failure (error_prefix @ ascii ''disk full''))
   \<and> \<not> isGenerating (generateTerrain_settled (\<lambda>e. e) (Rejected (ascii ''disk full'')) (fst (generateTerrain ready_app)))"
proof -
  have ok: "ascii ''OK'' \<noteq> [] \<and> \<not> includes_js (ascii ''OK'') error_marker"
    by (simp add: ascii_def error_marker_def)
  note inst = generateTerrain_request_and_settlement
      [OF ready_app_fields(1) ready_app_fields(3), of "\<lambda>e. e" "ascii ''OK''"
        "fst (generateTerrain ready_app)" "ascii ''disk full''"]
  from inst have request: "generateTerrain ready_app =
     (ready_app\<lparr>isGenerating := True, result := []\<rparr>,
      [Invoke (ascii ''generate_terrain'') \<lparr>min_lat = 10, min_lng = 5, max_lat = 30, max_lng = 20\<rparr> (ascii ''/maps'')])"
    by (simp add: ready_app_fields)
  from inst ok have resolved:
    "outcome (generateTerrain_settled (\<lambda>e. e) (Resolved (ascii ''OK'')) (fst (generateTerrain ready_app))) =
       Some (Success (ascii ''OK''))"
    by blast
  from inst have rejected:
    "outcome (generateTerrain_settled (\<lambda>e. e) (Rejected (ascii ''disk full'')) (fst (generateTerrain ready_app))) =
       Some (Failure (error_prefix @ ascii ''disk full''))"
    by blast
  from inst have idle:
    "\<not> isGenerating (generateTerrain_settled (\<lambda>e. e) (Rejected (ascii ''disk full'')) (fst (generateTerrain ready_app)))"
    by blast
  from request resolved rejected idle show ?thesis by blast
qed

text \<open>
  C1 as stated fails: a command that resolves with the empty string leaves no outcome
  at all, and one that resolves with a text containing the marker word is shown as a
  failure.
\<close>

theorem success_outcome_counterexample:
  "outcome (generateTerrain_settled (\<lambda>e::jsstring. e) (Resolved []) (fst (generateTerrain ready_app))) = None
   \<and> outcome (generateTerrain_settled (\<lambda>e::jsstring. e) (Resolved []) (fst (generateTerrain ready_app))) \<noteq> Some (Success [])
   \<and> outcome (generateTerrain_settled (\<lambda>e::jsstring. e) (Resolved error_marker) (fst (generateTerrain ready_app))) =
       Some (Failure error_marker)
   \<and> outcome (generateTerrain_settled (\<lambda>e::jsstring. e) (Resolved error_marker) (fst (generateTerrain ready_app))) \<noteq>
       Some (Success error_marker)"
  by (simp add: outcome_def generateTerrain_settled_def truthy_str_def error_marker_def)

section \<open>C2: the guard of \<^verbatim>\<open>generateTerrain\<close>\<close>

text \<open>
  C2. When the bounding box or the output path is absent, \<open>generateTerrain\<close> shows the
  alert, issues no command and leaves the whole state, of \<open>App\<close> and of the page, as
  it was; in particular \<open>isGenerating\<close> and \<open>result\<close> keep their values.
\<close>

theorem generateTerrain_precondition:
  assumes "bbox a = None \<or> outputPath a = []"
  shows "generateTerrain a = (a, [Alert alert_text])
     \<and> handle ts GenerateClicked \<lparr>selector = s, app = a\<rparr> = (\<lparr>selector = s, app = a\<rparr>, [Alert alert_text])
     \<and> isGenerating (fst (generateTerrain a)) = isGenerating a
     \<and> result (fst (generateTerrain a)) = result a
     \<and> (\<forall>c b p. Invoke c b p \<notin> set (snd (generateTerrain a)))"
proof -
  have "generateTerrain a = (a, [Alert alert_text])"
    using assms by (auto simp: generateTerrain_def truthy_obj_def truthy_str_def)
  then show ?thesis by (simp add: handle_def)
qed

theorem generateTerrain_precondition_witness:
  "generateTerrain App_init = (App_init, [Alert alert_text])
   \<and> generateTerrain (ready_app\<lparr>outputPath := []\<rparr>) = (ready_app\<lparr>outputPath := []\<rparr>, [Alert alert_text])
   \<and> generateTerrain (ready_app\<lparr>bbox := None\<rparr>) = (ready_app\<lparr>bbox := None\<rparr>, [Alert alert_text])"
proof -
  have 1: "bbox App_init = None \<or> outputPath App_init = []" by (simp add: App_init_def)
  have 2: "bbox (ready_app\<lparr>outputPath := []\<rparr>) = None \<or> outputPath (ready_app\<lparr>outputPath := []\<rparr>) = []" by simp
  have 3: "bbox (ready_app\<lparr>bbox := None\<rparr>) = None \<or> outputPath (ready_app\<lparr>bbox := None\<rparr>) = []" by simp
  show ?thesis
    using generateTerrain_precondition [OF 1, where ts = "\<lambda>e::jsstring. e" and s = Empty]
      generateTerrain_precondition [OF 2, where ts = "\<lambda>e::jsstring. e" and s = Empty]
      generateTerrain_precondition [OF 3, where ts = "\<lambda>e::jsstring. e" and s = Empty]
    by simp
qed

section \<open>C3: payloads that are not progress records\<close>

text \<open>
  The listener of the plain page swallows what it cannot read: when \<^verbatim>\<open>JSON.parse\<close>
  throws, or returns \<^verbatim>\<open>null\<close> so that the property read throws, the \<^verbatim>\<open>catch\<close>
  leaves the progress bar as it was. An object with neither field is displayed with the
  defaults.
\<close>

lemma bng_progress_listener_swallows:
  "JSON_parse s = None \<or> JSON_parse s = Some JNull \<Longrightarrow>
   bng_progress_listener JSON_parse ts s bar = bar"
  by (auto simp: bng_progress_listener_def get_prop_def)

lemma bng_progress_listener_defaults:
  assumes "JSON_parse s = Some (JObj fs)"
    and "map_of fs (ascii ''progress'') = None"
    and "map_of fs (ascii ''text'') = None"
  shows "bng_progress_listener JSON_parse ts s (Some t) =
     Some (ts (JNum 0) @ ascii ''% - '' @ ts (JStr []))"
  using assms by (simp add: bng_progress_listener_def get_prop_def field_def truthy_def)

text \<open>The listener of \<open>App\<close> touches the progress cell only, whatever the payload.\<close>

lemma progress_listener_frame:
  "isGenerating (progress_listener payload a) = isGenerating a
   \<and> result (progress_listener payload a) = result a
   \<and> outcome (progress_listener payload a) = outcome a
   \<and> bbox (progress_listener payload a) = bbox a
   \<and> outputPath (progress_listener payload a) = outputPath a
   \<and> progress (progress_listener payload a) = payload"
  by (simp add: progress_listener_def outcome_def)

text \<open>
  C3. A payload that is not a progress record should change nothing and raise nothing.
  The listener of \<open>App\<close> has no such check. At the string payload \<^verbatim>\<open>not a record\<close>,
  delivered while the generation started from \<open>ready_app\<close> is running, the listener
  replaces the stored progress by the string, and the progress panel, which evaluated
  to 0 before the event, throws a TypeError at the next render; \<open>isGenerating\<close> and
  \<open>result\<close> keep their values.
\<close>

theorem malformed_payload_stored_and_render_throws:
  "decode (JStr (ascii ''not a record'')) = None
   \<and> progress (progress_listener (JStr (ascii ''not a record'')) (fst (generateTerrain ready_app))) =
       JStr (ascii ''not a record'')
   \<and> progress (progress_listener (JStr (ascii ''not a record'')) (fst (generateTerrain ready_app))) \<noteq>
       progress (fst (generateTerrain ready_app))
   \<and> progress_listener (JStr (ascii ''not a record'')) (fst (generateTerrain ready_app)) \<noteq>
       fst (generateTerrain ready_app)
   \<and> isGenerating (progress_listener (JStr (ascii ''not a record'')) (fst (generateTerrain ready_app)))
   \<and> result (progress_listener (JStr (ascii ''not a record'')) (fst (generateTerrain ready_app))) = []
   \<and> progress_toFixed (fst (generateTerrain ready_app)) = Inr (Some 0)
   \<and> progress_toFixed (progress_listener (JStr (ascii ''not a record'')) (fst (generateTerrain ready_app))) =
       Inl TypeError"
proof -
  let ?bad = "JStr (ascii ''not a record'')"
  have running: "fst (generateTerrain ready_app) = ready_app\<lparr>isGenerating := True, result := []\<rparr>"
    by (simp add: generateTerrain_def truthy_obj_def truthy_str_def ready_app_fields ascii_def)
  have before: "progress (ready_app\<lparr>isGenerating := True, result := []\<rparr>) =
      JObj [(ascii ''stage'', JStr []), (ascii ''progress'', JNum 0)]"
    by (simp add: ready_app_def App_init_def)
  have changed: "progress (progress_listener ?bad (ready_app\<lparr>isGenerating := True, result := []\<rparr>)) \<noteq>
      progress (ready_app\<lparr>isGenerating := True, result := []\<rparr>)"
    by (simp add: progress_listener_def before)
  then have differs: "progress_listener ?bad (ready_app\<lparr>isGenerating := True, result := []\<rparr>) \<noteq>
      ready_app\<lparr>isGenerating := True, result := []\<rparr>"
    by auto
  have panel_before: "progress_toFixed (ready_app\<lparr>isGenerating := True, result := []\<rparr>) = Inr (Some 0)"
    by (simp add: progress_toFixed_def before get_prop_def field_def ascii_def)
  have panel_after: "progress_toFixed (progress_listener ?bad (ready_app\<lparr>isGenerating := True, result := []\<rparr>)) =
      Inl TypeError"
    by (simp add: progress_toFixed_def progress_listener_def get_prop_def)
  have undecodable: "decode ?bad = None"
    by (simp add: decode_def)
  from changed differs panel_before panel_after undecodable show ?thesis
    unfolding running by (simp add: progress_listener_def)
qed

text \<open>
  The state the event meets is the one the request leaves: the guard of
  \<open>generateTerrain\<close> passes at \<open>ready_app\<close>, and in that state the stored string makes
  the panel throw.
\<close>

theorem malformed_payload_stored_and_render_throws_witness:
  "fst (generateTerrain ready_app) = ready_app\<lparr>isGenerating := True, result := []\<rparr>
   \<and> progress_toFixed (progress_listener (JStr (ascii ''not a record''))
         (ready_app\<lparr>isGenerating := True, result := []\<rparr>)) = Inl TypeError
   \<and> progress (progress_listener (JStr (ascii ''not a record''))
         (ready_app\<lparr>isGenerating := True, result := []\<rparr>)) = JStr (ascii ''not a record'')"
proof -
  have running: "fst (generateTerrain ready_app) = ready_app\<lparr>isGenerating := True, result := []\<rparr>"
    by (simp add: generateTerrain_def truthy_obj_def truthy_str_def ready_app_fields ascii_def)
  note at_input = malformed_payload_stored_and_render_throws [unfolded running]
  from at_input have throws: "progress_toFixed (progress_listener (JStr (ascii ''not a record''))
         (ready_app\<lparr>isGenerating := True, result := []\<rparr>)) = Inl TypeError"
    by blast
  from at_input have stored: "progress (progress_listener (JStr (ascii ''not a record''))
         (ready_app\<lparr>isGenerating := True, result := []\<rparr>)) = JStr (ascii ''not a record'')"
    by blast
  from running throws stored show ?thesis by blast
qed

section \<open>C4: the bounding box of two clicks\<close>

text \<open>
  C4. From the empty selection, the first click captures its point and emits nothing;
  the second click completes the selection and emits exactly one bounding box, the
  element-wise minimum and maximum of the two points, which becomes the \<open>bbox\<close> of
  \<open>App\<close>. Clicking (10, 20) and then (30, 5) gives the box 10, 5, 30, 20.
\<close>

theorem second_click_bbox:
  "click p0 Empty = (FirstPointCaptured p0, [])
   \<and> click p1 (FirstPointCaptured p0) =
       (Complete p0 p1,
        [\<lparr>min_lat = min (fst p0) (fst p1), min_lng = min (snd p0) (snd p1),
          max_lat = max (fst p0) (fst p1), max_lng = max (snd p0) (snd p1)\<rparr>])
   \<and> bbox (app (run ts [MapClick p0, MapClick p1] \<lparr>selector = Empty, app = a\<rparr>)) =
       Some \<lparr>min_lat = min (fst p0) (fst p1), min_lng = min (snd p0) (snd p1),
             max_lat = max (fst p0) (fst p1), max_lng = max (snd p0) (snd p1)\<rparr>
   \<and> selector (run ts [MapClick p0, MapClick p1] \<lparr>selector = Empty, app = a\<rparr>) = Complete p0 p1
   \<and> snd (click (30, 5) (fst (click (10, 20) Empty))) =
       [\<lparr>min_lat = 10, min_lng = 5, max_lat = 30, max_lng = 20\<rparr>]"
  by (simp add: click_Empty click_FirstPointCaptured handle_def setBbox_def)
     (simp add: click_bbox_def)

theorem second_click_bbox_witness:
  "bbox (app (run (\<lambda>e::jsstring. e) [MapClick (10, 20), MapClick (30, 5)] UI_init)) =
     Some \<lparr>min_lat = 10, min_lng = 5, max_lat = 30, max_lng = 20\<rparr>"
  using second_click_bbox [of "(10, 20)" "(30, 5)" "\<lambda>e::jsstring. e" App_init]
  by (simp add: UI_init_def MapSelector_init_def Empty_def)

section \<open>C5: the invariant of bounding boxes\<close>

text \<open>
  C5. The box of two clicks has \<open>min_lat \<le> max_lat\<close> and \<open>min_lng \<le> max_lng\<close>, and
  it is the same box when the two clicks come in the other order. Every box a click
  emits is built this way, and the \<open>bbox\<close> of \<open>App\<close> is set by nothing else, so
  after any sequence of events a box that is present satisfies the invariant.
\<close>

theorem bbox_invariant:
  "bbox_ok (click_bbox p0 p1)
   \<and> click_bbox p0 p1 = click_bbox p1 p0
   \<and> snd (click p1 (fst (click p0 Empty))) = snd (click p0 (fst (click p1 Empty)))
   \<and> (\<forall>b \<in> set (snd (click p s)). bbox_ok b)
   \<and> (\<forall>b. bbox (app (run ts evs UI_init)) = Some b \<longrightarrow> bbox_ok b)"
proof -
  have inv: "\<forall>b. bbox (app (run ts evs UI_init)) = Some b \<longrightarrow> bbox_ok b"
    by (rule run_bbox_ok) (simp add: UI_init_def App_init_def)
  have emitted: "\<forall>b \<in> set (snd (click p s)). bbox_ok b"
    using click_emitted bbox_ok_click_bbox by blast
  have swap: "snd (click p1 (fst (click p0 Empty))) = snd (click p0 (fst (click p1 Empty)))"
    by (simp add: click_Empty click_FirstPointCaptured click_bbox_commute)
  from inv emitted swap show ?thesis
    by (simp add: bbox_ok_click_bbox click_bbox_commute [of p0 p1])
qed

theorem bbox_invariant_witness:
  "bbox (app (run (\<lambda>e::jsstring. e) [MapClick (30, 5), MapClick (10, 20), ResetClicked] UI_init)) =
     Some \<lparr>min_lat = 10, min_lng = 5, max_lat = 30, max_lng = 20\<rparr>
   \<and> bbox_ok \<lparr>min_lat = 10, min_lng = 5, max_lat = 30, max_lng = 20\<rparr>
   \<and> \<lparr>min_lat = 10, min_lng = 5, max_lat = 30, max_lng = 20\<rparr> \<in> set (snd (click (10, 20) (FirstPointCaptured (30, 5))))"
proof -
  have run: "bbox (app (run (\<lambda>e::jsstring. e) [MapClick (30, 5), MapClick (10, 20), ResetClicked] UI_init)) =
     Some \<lparr>min_lat = 10, min_lng = 5, max_lat = 30, max_lng = 20\<rparr>"
    by (simp add: UI_init_def MapSelector_init_def App_init_def handle_def click_def
        click_bbox_def setBbox_def resetSelection_def)
  have mem: "\<lparr>min_lat = 10, min_lng = 5, max_lat = 30, max_lng = 20\<rparr> \<in> set (snd (click (10, 20) (FirstPointCaptured (30, 5))))"
    by (simp add: click_FirstPointCaptured click_bbox_def)
  from run mem
    bbox_invariant [of "(30, 5)" "(10, 20)" "(10, 20)" "FirstPointCaptured (30, 5)" "\<lambda>e::jsstring. e"
      "[MapClick (30, 5), MapClick (10, 20), ResetClicked]"]
  show ?thesis by blast
qed

section \<open>C6: a click after completion\<close>

text \<open>
  C6. A click while both points are captured changes neither the selection nor the
  state of \<open>App\<close> (its \<open>bbox\<close> included), and emits nothing.
\<close>

theorem click_while_Complete_ignored:
  "click p (Complete p0 p1) = (Complete p0 p1, [])
   \<and> handle ts (MapClick p) \<lparr>selector = Complete p0 p1, app = a\<rparr> =
       (\<lparr>selector = Complete p0 p1, app = a\<rparr>, [])"
  by (simp add: click_Complete handle_def)

theorem click_while_Complete_ignored_witness:
  "handle (\<lambda>e::jsstring. e) (MapClick (1, 2)) (run (\<lambda>e::jsstring. e) [MapClick (10, 20), MapClick (30, 5)] UI_init) =
     (\<lparr>selector = Complete (10, 20) (30, 5), app = App_init\<lparr>bbox := Some (click_bbox (10, 20) (30, 5))\<rparr>\<rparr>, [])"
proof -
  have "run (\<lambda>e::jsstring. e) [MapClick (10, 20), MapClick (30, 5)] UI_init =
      \<lparr>selector = Complete (10, 20) (30, 5), app = App_init\<lparr>bbox := Some (click_bbox (10, 20) (30, 5))\<rparr>\<rparr>"
    by (simp add: UI_init_def MapSelector_init_def handle_def click_def setBbox_def Complete_def)
  then show ?thesis
    using click_while_Complete_ignored [of "(1, 2)" "(10, 20)" "(30, 5)" "\<lambda>e::jsstring. e"
        "App_init\<lparr>bbox := Some (click_bbox (10, 20) (30, 5))\<rparr>"]
    by simp
qed

section \<open>C7: when the generate button is disabled\<close>

text \<open>
  C7. The generate button is disabled if and only if the bounding box is absent, or
  the output path is empty, or a generation is running; it is enabled exactly when
  none of the three holds.
\<close>

theorem generate_button_disabled_iff:
  "(disabled a \<longleftrightarrow> bbox a = None \<or> outputPath a = [] \<or> isGenerating a)
   \<and> (\<not> disabled a \<longleftrightarrow> bbox a \<noteq> None \<and> outputPath a \<noteq> [] \<and> \<not> isGenerating a)"
  by (simp add: disabled_def truthy_obj_iff truthy_str_def)

theorem generate_button_disabled_iff_witness:
  "\<not> disabled ready_app \<and> disabled App_init \<and> disabled (ready_app\<lparr>isGenerating := True\<rparr>)
   \<and> disabled (ready_app\<lparr>outputPath := []\<rparr>) \<and> disabled (ready_app\<lparr>bbox := None\<rparr>)"
  using generate_button_disabled_iff [of ready_app] generate_button_disabled_iff [of App_init]
    generate_button_disabled_iff [of "ready_app\<lparr>isGenerating := True\<rparr>"]
    generate_button_disabled_iff [of "ready_app\<lparr>outputPath := []\<rparr>"]
    generate_button_disabled_iff [of "ready_app\<lparr>bbox := None\<rparr>"]
  by (simp add: ready_app_fields App_init_def ascii_def)

section \<open>C8: a progress event changes the progress only\<close>

text \<open>
  C8. A payload that is a progress record is stored as the progress and nothing else
  changes: \<open>isGenerating\<close>, \<open>result\<close> and the outcome keep their values, also when the
  event arrives after the command has settled (\<open>isGenerating\<close> stays cleared and the
  stored response stays).
\<close>

theorem progress_updates_only_progress:
  assumes "decode payload = Some gp"
  shows "progress_listener payload a = a\<lparr>progress := payload\<rparr>
     \<and> decode (progress (progress_listener payload a)) = Some gp
     \<and> isGenerating (progress_listener payload a) = isGenerating a
     \<and> result (progress_listener payload a) = result a
     \<and> outcome (progress_listener payload a) = outcome a
     \<and> bbox (progress_listener payload a) = bbox a
     \<and> outputPath (progress_listener payload a) = outputPath a
     \<and> \<not> isGenerating (progress_listener payload (generateTerrain_settled ts r a))
     \<and> result (progress_listener payload (generateTerrain_settled ts (Resolved m) a)) = m
     \<and> outcome (progress_listener payload (generateTerrain_settled ts r a)) =
         outcome (generateTerrain_settled ts r a)"
  using assms
  by (cases r) (simp_all add: progress_listener_def outcome_def generateTerrain_settled_def)

theorem progress_updates_only_progress_witness:
  "decode (progress (progress_listener fetching_tiles
       (generateTerrain_settled (\<lambda>e::jsstring. e) (Resolved (ascii ''OK'')) (fst (generateTerrain ready_app))))) =
     Some \<lparr>stage = ascii ''fetching tiles'', percent = 42\<rparr>
   \<and> \<not> isGenerating (progress_listener fetching_tiles
       (generateTerrain_settled (\<lambda>e::jsstring. e) (Resolved (ascii ''OK'')) (fst (generateTerrain ready_app))))
   \<and> result (progress_listener fetching_tiles
       (generateTerrain_settled (\<lambda>e::jsstring. e) (Resolved (ascii ''OK'')) (fst (generateTerrain ready_app)))) = ascii ''OK''"
  using progress_updates_only_progress [OF decode_fetching_tiles,
      of "generateTerrain_settled (\<lambda>e::jsstring. e) (Resolved (ascii ''OK'')) (fst (generateTerrain ready_app))"
         "\<lambda>e::jsstring. e" "Resolved (ascii ''OK'')" "ascii ''OK''"]
    progress_updates_only_progress [OF decode_fetching_tiles,
      of "fst (generateTerrain ready_app)" "\<lambda>e::jsstring. e" "Resolved (ascii ''OK'')" "ascii ''OK''"]
  by blast

section \<open>C9: reset, and the first click\<close>

text \<open>
  C9. \<open>resetSelection\<close> gives the empty selection from every state, and a click on
  the empty selection captures the clicked point as the first point.
\<close>

theorem reset_then_click:
  "resetSelection s = Empty
   \<and> resetSelection Empty = Empty
   \<and> resetSelection (FirstPointCaptured p0) = Empty
   \<and> resetSelection (Complete p0 p1) = Empty
   \<and> click p Empty = (FirstPointCaptured p, [])
   \<and> click p (resetSelection s) = (FirstPointCaptured p, [])"
  by (simp add: resetSelection_Empty click_Empty)

theorem reset_then_click_witness:
  "click (1, 2) (resetSelection (Complete (10, 20) (30, 5))) = (FirstPointCaptured (1, 2), [])"
  using reset_then_click [of "Complete (10, 20) (30, 5)" "(10, 20)" "(30, 5)" "(1, 2)"]
  by simp

section \<open>C10: reset does not clear the bounding box of \<^verbatim>\<open>App\<close>\<close>

text \<open>
  C10. The reset button empties the selection and leaves the state of \<open>App\<close> as it
  was. With a box present, a path chosen and no generation running, the generate
  button is still enabled after the reset and a click on it issues the command with
  the box from before the reset; that box stays through the next first click and is
  replaced when the next selection completes.
\<close>

theorem reset_keeps_bbox:
  assumes "bbox (app u) = Some b" and "outputPath (app u) \<noteq> []" and "\<not> isGenerating (app u)"
  shows "selector (fst (handle ts ResetClicked u)) = Empty
     \<and> snd (handle ts ResetClicked u) = []
     \<and> app (fst (handle ts ResetClicked u)) = app u
     \<and> bbox (app (fst (handle ts ResetClicked u))) = Some b
     \<and> \<not> disabled (app (fst (handle ts ResetClicked u)))
     \<and> snd (handle ts GenerateClicked (fst (handle ts ResetClicked u))) =
         [Invoke (ascii ''generate_terrain'') b (outputPath (app u))]
     \<and> bbox (app (run ts [ResetClicked, MapClick p] u)) = Some b
     \<and> bbox (app (run ts [ResetClicked, MapClick p, MapClick q] u)) = Some (click_bbox p q)"
proof -
  have reset: "fst (handle ts ResetClicked u) = u\<lparr>selector := Empty\<rparr>"
    by (simp add: handle_def resetSelection_Empty)
  have first: "fst (handle ts (MapClick p) (u\<lparr>selector := Empty\<rparr>)) = u\<lparr>selector := FirstPointCaptured p\<rparr>"
    by (simp add: handle_def click_Empty)
  have second: "fst (handle ts (MapClick q) (u\<lparr>selector := FirstPointCaptured p\<rparr>)) =
      \<lparr>selector = Complete p q, app = setBbox (click_bbox p q) (app u)\<rparr>"
    by (simp add: handle_def click_FirstPointCaptured)
  have gen: "snd (handle ts GenerateClicked (u\<lparr>selector := Empty\<rparr>)) =
      [Invoke (ascii ''generate_terrain'') b (outputPath (app u))]"
    using assms by (simp add: handle_def generateTerrain_def truthy_obj_def truthy_str_def)
  have enabled: "\<not> disabled (app u)"
    using assms by (simp add: disabled_def truthy_obj_def truthy_str_def)
  from assms reset first second gen enabled show ?thesis
    by (simp add: setBbox_def handle_def)
qed

theorem reset_keeps_bbox_witness:
  "bbox (app (run (\<lambda>e::jsstring. e)
       [MapClick (10, 20), MapClick (30, 5), DialogClosed (OpenPath (ascii ''/maps'')), ResetClicked] UI_init)) =
     Some \<lparr>min_lat = 10, min_lng = 5, max_lat = 30, max_lng = 20\<rparr>
   \<and> selector (run (\<lambda>e::jsstring. e)
       [MapClick (10, 20), MapClick (30, 5), DialogClosed (OpenPath (ascii ''/maps'')), ResetClicked] UI_init) = Empty
   \<and> snd (handle (\<lambda>e::jsstring. e) GenerateClicked (run (\<lambda>e::jsstring. e)
       [MapClick (10, 20), MapClick (30, 5), DialogClosed (OpenPath (ascii ''/maps'')), ResetClicked] UI_init)) =
     [Invoke (ascii ''generate_terrain'') \<lparr>min_lat = 10, min_lng = 5, max_lat = 30, max_lng = 20\<rparr> (ascii ''/maps'')]"
proof -
  let ?ts = "\<lambda>e::jsstring. e"
  let ?u = "\<lparr>selector = Complete (10, 20) (30, 5), app = ready_app\<rparr>"
  let ?b = "\<lparr>min_lat = 10, min_lng = 5, max_lat = 30, max_lng = 20\<rparr>"
  have before: "run ?ts [MapClick (10, 20), MapClick (30, 5), DialogClosed (OpenPath (ascii ''/maps''))] UI_init = ?u"
    by (simp add: UI_init_def MapSelector_init_def App_init_def handle_def click_def setBbox_def
        selectOutputPath_def Complete_def ready_app_def ascii_def)
  then have after: "run ?ts [MapClick (10, 20), MapClick (30, 5), DialogClosed (OpenPath (ascii ''/maps'')), ResetClicked] UI_init =
      fst (handle ?ts ResetClicked ?u)"
    by simp
  have h1: "bbox (app ?u) = Some ?b" by (simp add: ready_app_def click_bbox_def)
  have h2: "outputPath (app ?u) \<noteq> []" by (simp add: ready_app_def ascii_def)
  have h3: "\<not> isGenerating (app ?u)" by (simp add: ready_app_def App_init_def)
  have path: "outputPath (app ?u) = ascii ''/maps''" by (simp add: ready_app_def)
  note inst = reset_keeps_bbox [OF h1 h2 h3, of ?ts]
  from inst have 1: "bbox (app (fst (handle ?ts ResetClicked ?u))) = Some ?b" by blast
  from inst have 2: "selector (fst (handle ?ts ResetClicked ?u)) = Empty" by blast
  from inst have "snd (handle ?ts GenerateClicked (fst (handle ?ts ResetClicked ?u))) =
      [Invoke (ascii ''generate_terrain'') ?b (outputPath (app ?u))]" by blast
  with path have 3: "snd (handle ?ts GenerateClicked (fst (handle ?ts ResetClicked ?u))) =
      [Invoke (ascii ''generate_terrain'') ?b (ascii ''/maps'')]" by simp
  from 1 2 3 show ?thesis unfolding after by blast
qed

end
